theory Spec2Isabelle
  imports Complex_Main
begin

section \<open>Documents, collections and the database handle\<close>

text \<open>
  The service keeps all of its state in a document database. A stored value is one of the
  scalar kinds the schemas of \<^verbatim>\<open>schemas.py\<close> use: null, a boolean, a number, a string,
  a date. A date is a count of microseconds (the resolution of Python's \<^verbatim>\<open>datetime\<close>); a
  number is an exact real, so the rounding of floating-point sums is outside this model.
  A document is its list of fields in order, a collection is the list of its documents in
  the store's natural order, and the store maps every collection name to a collection.
  The identifier \<^verbatim>\<open>_id\<close> that the store gives each document is left out: no filter and
  no update of \<^verbatim>\<open>main.py\<close> modelled here names it.
  The module-level handle \<^verbatim>\<open>db\<close> is \<^verbatim>\<open>None\<close> when no database is configured.
  A date read back from the store is taken to be the instant that was written: the
  driver's rounding of dates and its handling of time zones are outside this model, as is
  every failure of the store other than the ones written out below.
\<close>

datatype bson = BNull | BBool bool | BNum real | BStr string | BDate int

type_synonym doc = "(string \<times> bson) list"

type_synonym store = "string \<Rightarrow> doc list"

type_synonym database = "store option"

text \<open>
  What a handler can raise: an \<^verbatim>\<open>HTTPException\<close> with its status code and detail, an
  uncaught \<^verbatim>\<open>TypeError\<close> of the interpreter, an uncaught \<^verbatim>\<open>OperationFailure\<close> of the
  database driver, and the storage failure of the record-creating helper.
\<close>

datatype error = HTTPException nat string | TypeError | OperationFailure | StorageUnavailable

abbreviation InvalidCode :: error where
  "InvalidCode \<equiv> HTTPException 400 ''Invalid code''"

abbreviation CodeExpired :: error where
  "CodeExpired \<equiv> HTTPException 400 ''Code expired''"

text \<open>\<^verbatim>\<open>_collection(name)\<close>: status 500 when \<^verbatim>\<open>db is None\<close>, otherwise \<^verbatim>\<open>db[name]\<close>.\<close>

definition collection :: "database \<Rightarrow> string \<Rightarrow> error + doc list" where
  "collection db name =
     (case db of
        None \<Rightarrow> Inl (HTTPException 500 ''Database not configured'')
      | Some s \<Rightarrow> Inr (s name))"

text \<open>A write through the collection handle changes that collection of the store.\<close>

definition put_collection :: "database \<Rightarrow> string \<Rightarrow> doc list \<Rightarrow> database" where
  "put_collection db name col = map_option (\<lambda>s. s(name := col)) db"

text \<open>
  \<^verbatim>\<open>d.get(k)\<close> of Python, and a field path \<^verbatim>\<open>"$k"\<close> used as a grouping key: a missing field
  reads as null.
\<close>

definition field_or_null :: "doc \<Rightarrow> string \<Rightarrow> bson" where
  "field_or_null d k = (case map_of d k of None \<Rightarrow> BNull | Some v \<Rightarrow> v)"

text \<open>
  An equality filter \<^verbatim>\<open>{k: v, ...}\<close>: every clause must hold. A clause with a null value
  holds for a document whose field is null or missing; any other value must be stored under
  the field, equal as it is (strings byte for byte).
\<close>

definition clause_holds :: "doc \<Rightarrow> string \<times> bson \<Rightarrow> bool" where
  "clause_holds d c =
     (case snd c of
        BNull \<Rightarrow> map_of d (fst c) = None \<or> map_of d (fst c) = Some BNull
      | v \<Rightarrow> map_of d (fst c) = Some v)"

definition matches :: "doc \<Rightarrow> doc \<Rightarrow> bool" where
  "matches flt d = list_all (clause_holds d) flt"

text \<open>\<^verbatim>\<open>col.find_one(flt)\<close>: the first document in natural order that matches, or \<^verbatim>\<open>None\<close>.\<close>

definition find_one :: "doc list \<Rightarrow> doc \<Rightarrow> doc option" where
  "find_one col flt = List.find (matches flt) col"

text \<open>Writing one field of a document: replace it in place, or add it at the end.\<close>

fun set_field :: "string \<Rightarrow> bson \<Rightarrow> doc \<Rightarrow> doc" where
  "set_field k v [] = [(k, v)]"
| "set_field k v (p # ps) = (if fst p = k then (k, v) # ps else p # set_field k v ps)"

text \<open>The update operator \<^verbatim>\<open>{"$set": fields}\<close>: write each listed field.\<close>

fun set_fields :: "doc \<Rightarrow> doc \<Rightarrow> doc" where
  "set_fields [] d = d"
| "set_fields (p # ps) d = set_fields ps (set_field (fst p) (snd p) d)"

text \<open>
  \<^verbatim>\<open>col.update_one(flt, upd, upsert=True)\<close>: the first matching document is changed by the
  update; when none matches, one document is inserted, made of the filter's equality clauses
  with the update applied to it.
\<close>

fun update_one :: "doc list \<Rightarrow> doc \<Rightarrow> (doc \<Rightarrow> doc) \<Rightarrow> doc list" where
  "update_one [] flt upd = [upd flt]"
| "update_one (d # ds) flt upd =
     (if matches flt d then upd d # ds else d # update_one ds flt upd)"

text \<open>
  Modelled from the spec: \<^verbatim>\<open>create_document\<close> is imported from the module \<^verbatim>\<open>database\<close>,
  which is not among the sources. The specification describes it as the store adapter's
  generic create operation: it persists a new record in the named collection, and a storage
  failure propagates as a storage-unavailable failure. The new record is added after the
  existing ones and nothing else changes.
\<close>

definition create_document :: "database \<Rightarrow> string \<Rightarrow> doc \<Rightarrow> error + database" where
  "create_document db name d =
     (case db of
        None \<Rightarrow> Inl StorageUnavailable
      | Some s \<Rightarrow> Inr (Some (s(name := s name @ [d]))))"

section \<open>The schemas\<close>

text \<open>
  \<^verbatim>\<open>model_dump()\<close> of the models \<^verbatim>\<open>OTP\<close>, \<^verbatim>\<open>Session\<close> and \<^verbatim>\<open>User\<close>: every field, in
  declaration order. \<^verbatim>\<open>User(email=e)\<close> takes the declared default of every other field.
\<close>

definition OTP :: "string \<Rightarrow> string \<Rightarrow> int \<Rightarrow> doc" where
  "OTP email code expires_at =
     [(''email'', BStr email), (''code'', BStr code), (''expires_at'', BDate expires_at)]"

definition Session :: "string \<Rightarrow> string \<Rightarrow> int \<Rightarrow> doc" where
  "Session email token created_at =
     [(''email'', BStr email), (''token'', BStr token), (''created_at'', BDate created_at)]"

definition User :: "string \<Rightarrow> doc" where
  "User email =
     [(''name'', BNull), (''email'', BStr email), (''role'', BStr ''student''),
      (''avatar_url'', BNull), (''locale'', BStr ''en''), (''points'', BNum 0)]"

text \<open>
  A request body of the model \<^verbatim>\<open>Progress\<close>. The two required fields are always present. For
  each of the other three the body records whether the caller supplied it: \<open>None\<close> is a
  field the caller left out, and for the two nullable fields \<open>Some None\<close> is an
  explicit null.
\<close>

record Progress =
  user_email :: string
  course_id :: string
  lesson_id :: "string option option"
  completed :: "bool option"
  score :: "real option option"

text \<open>\<^verbatim>\<open>body.lesson_id\<close>: the supplied value, and the default \<^verbatim>\<open>None\<close> when left out.\<close>

definition lesson_id_value :: "Progress \<Rightarrow> bson" where
  "lesson_id_value body =
     (case lesson_id body of Some (Some l) \<Rightarrow> BStr l | _ \<Rightarrow> BNull)"

text \<open>\<^verbatim>\<open>body.model_dump(exclude_unset=True)\<close>: only the fields the caller supplied.\<close>

definition model_dump_exclude_unset :: "Progress \<Rightarrow> doc" where
  "model_dump_exclude_unset body =
     [(''user_email'', BStr (user_email body)), (''course_id'', BStr (course_id body))]
     @ (case lesson_id body of
          None \<Rightarrow> []
        | Some None \<Rightarrow> [(''lesson_id'', BNull)]
        | Some (Some l) \<Rightarrow> [(''lesson_id'', BStr l)])
     @ (case completed body of None \<Rightarrow> [] | Some b \<Rightarrow> [(''completed'', BBool b)])
     @ (case score body of
          None \<Rightarrow> []
        | Some None \<Rightarrow> [(''score'', BNull)]
        | Some (Some x) \<Rightarrow> [(''score'', BNum x)])"

section \<open>Issuing a one-time code\<close>

text \<open>
  Decimal digits of a natural number, as \<^verbatim>\<open>str\<close> prints them, and the format
  \<^verbatim>\<open>f"{n:06d}"\<close>: zeros on the left up to width six, and no truncation of a longer number.
\<close>

function str_nat :: "nat \<Rightarrow> string" where
  "str_nat n =
     (if n < 10 then [''0123456789'' ! n]
      else str_nat (n div 10) @ [''0123456789'' ! (n mod 10)])"
  by pat_completeness auto
termination
  by (relation "measure id") auto

declare str_nat.simps [simp del]

definition format_06d :: "nat \<Rightarrow> string" where
  "format_06d n = replicate (6 - length (str_nat n)) CHR ''0'' @ str_nat n"

definition is_digit :: "char \<Rightarrow> bool" where
  "is_digit c = (c \<in> set ''0123456789'')"

text \<open>\<^verbatim>\<open>timedelta(minutes=m)\<close> in microseconds.\<close>

definition minutes :: "int \<Rightarrow> int" where
  "minutes m = m * 60000000"

definition seconds :: "int \<Rightarrow> int" where
  "seconds x = x * 1000000"

text \<open>The reply of \<^verbatim>\<open>request_otp\<close>: \<^verbatim>\<open>{"sent": True, "email": ..., "code": ...}\<close>.\<close>

record otp_reply =
  sent :: bool
  reply_email :: string
  reply_code :: string

text \<open>
  \<^verbatim>\<open>request_otp\<close>. The clock reading \<open>now\<close> and the draw \<open>r\<close> of
  \<^verbatim>\<open>secrets.randbelow(1000000)\<close> are inputs. Every operation returns its result together with
  the database it leaves behind, also when it raises.
\<close>

definition request_otp :: "database \<Rightarrow> int \<Rightarrow> nat \<Rightarrow> string \<Rightarrow> (error + otp_reply) \<times> database" where
  "request_otp db now r email =
     (let code = format_06d r;
          expires = now + minutes 10
      in case create_document db ''otp'' (OTP email code expires) of
           Inl e \<Rightarrow> (Inl e, db)
         | Inr db' \<Rightarrow> (Inr \<lparr>sent = True, reply_email = email, reply_code = code\<rparr>, db'))"

section \<open>Verifying a one-time code\<close>

text \<open>Python's truth value of a stored value.\<close>

fun truthy :: "bson \<Rightarrow> bool" where
  "truthy BNull = False"
| "truthy (BBool b) = b"
| "truthy (BNum x) = (x \<noteq> 0)"
| "truthy (BStr s) = (s \<noteq> [])"
| "truthy (BDate t) = True"

text \<open>\<^verbatim>\<open>v < datetime.now(timezone.utc)\<close>: defined between dates, a \<^verbatim>\<open>TypeError\<close> otherwise.\<close>

fun before :: "bson \<Rightarrow> int \<Rightarrow> error + bool" where
  "before (BDate t) now = Inr (t < now)"
| "before v now = Inl TypeError"

text \<open>
  The condition \<^verbatim>\<open>rec.get("expires_at") and rec["expires_at"] < datetime.now(timezone.utc)\<close>:
  the comparison is evaluated only when the field is truthy.
\<close>

definition expired :: "doc \<Rightarrow> int \<Rightarrow> error + bool" where
  "expired rec now =
     (if truthy (field_or_null rec ''expires_at'')
      then before (field_or_null rec ''expires_at'') now
      else Inr False)"

text \<open>
  \<^verbatim>\<open>verify_otp\<close>. The clock is read twice, \<open>now\<close> for the expiry check and \<open>now'\<close> for the
  session's \<^verbatim>\<open>created_at\<close>; \<open>token\<close> is the value of \<^verbatim>\<open>secrets.token_hex(16)\<close>. The reply
  \<^verbatim>\<open>{"token": token}\<close> is modelled by the token.
\<close>

definition verify_otp ::
  "database \<Rightarrow> int \<Rightarrow> int \<Rightarrow> string \<Rightarrow> string \<Rightarrow> string \<Rightarrow> (error + string) \<times> database" where
  "verify_otp db now now' token email code =
     (case collection db ''otp'' of
        Inl e \<Rightarrow> (Inl e, db)
      | Inr col \<Rightarrow>
         (case find_one col [(''email'', BStr email), (''code'', BStr code)] of
            None \<Rightarrow> (Inl InvalidCode, db)
          | Some rec \<Rightarrow>
             (case expired rec now of
                Inl e \<Rightarrow> (Inl e, db)
              | Inr True \<Rightarrow> (Inl CodeExpired, db)
              | Inr False \<Rightarrow>
                 (case create_document db ''session'' (Session email token now') of
                    Inl e \<Rightarrow> (Inl e, db)
                  | Inr db1 \<Rightarrow>
                     (case collection db1 ''user'' of
                        Inl e \<Rightarrow> (Inl e, db1)
                      | Inr users \<Rightarrow>
                         (case find_one users [(''email'', BStr email)] of
                            Some u \<Rightarrow> (Inr token, db1)
                          | None \<Rightarrow>
                             (case create_document db1 ''user'' (User email) of
                                Inl e \<Rightarrow> (Inl e, db1)
                              | Inr db2 \<Rightarrow> (Inr token, db2))))))))"

section \<open>Progress and the leaderboard\<close>

text \<open>
  \<^verbatim>\<open>upsert_progress\<close>: one \<^verbatim>\<open>update_one\<close> with \<^verbatim>\<open>upsert=True\<close>, keyed by the three key
  fields of the body; the update sets the supplied fields and stamps \<^verbatim>\<open>updated_at\<close> with
  the store's clock \<open>now\<close>. The reply \<^verbatim>\<open>{"ok": True}\<close> is modelled by \<open>True\<close>.
\<close>

definition progress_filter :: "Progress \<Rightarrow> doc" where
  "progress_filter body =
     [(''user_email'', BStr (user_email body)), (''course_id'', BStr (course_id body)),
      (''lesson_id'', lesson_id_value body)]"

definition progress_update :: "Progress \<Rightarrow> int \<Rightarrow> doc \<Rightarrow> doc" where
  "progress_update body now d =
     set_field ''updated_at'' (BDate now) (set_fields (model_dump_exclude_unset body) d)"

definition upsert_progress :: "database \<Rightarrow> int \<Rightarrow> Progress \<Rightarrow> (error + bool) \<times> database" where
  "upsert_progress db now body =
     (case collection db ''progress'' of
        Inl e \<Rightarrow> (Inl e, db)
      | Inr col \<Rightarrow>
         (Inr True,
          put_collection db ''progress''
            (update_one col (progress_filter body) (progress_update body now))))"

text \<open>
  The aggregation pipeline of \<^verbatim>\<open>leaderboard\<close>, stage by stage.

  \<^verbatim>\<open>{"$ifNull": ["$score", 0]}\<close> replaces a missing or null field; \<^verbatim>\<open>$sum\<close> adds the numbers
  and ignores any other value.
\<close>

definition if_null :: "bson option \<Rightarrow> bson \<Rightarrow> bson" where
  "if_null v d = (case v of None \<Rightarrow> d | Some BNull \<Rightarrow> d | Some x \<Rightarrow> x)"

definition sum_operand :: "bson \<Rightarrow> real" where
  "sum_operand v = (case v of BNum x \<Rightarrow> x | _ \<Rightarrow> 0)"

definition score_expr :: "doc \<Rightarrow> real" where
  "score_expr d = sum_operand (if_null (map_of d ''score'') (BNum 0))"

text \<open>
  \<^verbatim>\<open>$group\<close> by \<^verbatim>\<open>"$user_email"\<close>: one accumulator per key, as \<open>(_id, score)\<close>. The store
  promises no order of the groups; the model lists them in order of first appearance.
\<close>

fun group_add :: "bson \<Rightarrow> real \<Rightarrow> (bson \<times> real) list \<Rightarrow> (bson \<times> real) list" where
  "group_add k x [] = [(k, x)]"
| "group_add k x (g # gs) =
     (if fst g = k then (k, snd g + x) # gs else g # group_add k x gs)"

definition group_stage :: "doc list \<Rightarrow> (bson \<times> real) list" where
  "group_stage col =
     foldl (\<lambda>acc d. group_add (field_or_null d ''user_email'') (score_expr d) acc) [] col"

text \<open>\<^verbatim>\<open>{"$sort": {"score": -1}}\<close>: descending by score; the model keeps equal scores in order.\<close>

definition sort_stage :: "(bson \<times> real) list \<Rightarrow> (bson \<times> real) list" where
  "sort_stage gs = sort_key (\<lambda>g. - snd g) gs"

text \<open>
  \<^verbatim>\<open>{"$limit": limit}\<close>: the store accepts a positive integer only, and the driver raises
  \<^verbatim>\<open>OperationFailure\<close> for the rejected pipeline.
\<close>

definition limit_stage :: "int \<Rightarrow> 'a list \<Rightarrow> error + 'a list" where
  "limit_stage limit xs = (if limit \<le> 0 then Inl OperationFailure else Inr (take (nat limit) xs))"

text \<open>One entry of the reply: \<^verbatim>\<open>{"user_email": a["_id"], "score": a["score"]}\<close>.\<close>

record entry =
  entry_user_email :: bson
  entry_score :: real

definition leaderboard :: "database \<Rightarrow> int \<Rightarrow> (error + entry list) \<times> database" where
  "leaderboard db limit =
     (case collection db ''progress'' of
        Inl e \<Rightarrow> (Inl e, db)
      | Inr col \<Rightarrow>
         (case limit_stage limit (sort_stage (group_stage col)) of
            Inl e \<Rightarrow> (Inl e, db)
          | Inr agg \<Rightarrow>
             (Inr (map (\<lambda>a. \<lparr>entry_user_email = fst a, entry_score = snd a\<rparr>) agg), db)))"

section \<open>Updating an account\<close>

text \<open>
  A request body of the model \<^verbatim>\<open>User\<close>. The address is required. For each of the other
  fields the body records whether the caller supplied it, as a \<^verbatim>\<open>Progress\<close> body does.
\<close>

record User_body =
  body_name :: "string option option"
  body_email :: string
  body_role :: "string option"
  body_avatar_url :: "string option option"
  body_locale :: "string option"
  body_points :: "int option"

text \<open>\<^verbatim>\<open>body.model_dump(exclude_unset=True)\<close> of a \<^verbatim>\<open>User\<close> body.\<close>

definition user_dump_exclude_unset :: "User_body \<Rightarrow> doc" where
  "user_dump_exclude_unset body =
     (case body_name body of
        None \<Rightarrow> []
      | Some None \<Rightarrow> [(''name'', BNull)]
      | Some (Some n) \<Rightarrow> [(''name'', BStr n)])
     @ [(''email'', BStr (body_email body))]
     @ (case body_role body of None \<Rightarrow> [] | Some r \<Rightarrow> [(''role'', BStr r)])
     @ (case body_avatar_url body of
          None \<Rightarrow> []
        | Some None \<Rightarrow> [(''avatar_url'', BNull)]
        | Some (Some u) \<Rightarrow> [(''avatar_url'', BStr u)])
     @ (case body_locale body of None \<Rightarrow> [] | Some l \<Rightarrow> [(''locale'', BStr l)])
     @ (case body_points body of None \<Rightarrow> [] | Some p \<Rightarrow> [(''points'', BNum (of_int p))])"

text \<open>
  \<^verbatim>\<open>_to_dict\<close> returns a missing document as it is and otherwise renames \<^verbatim>\<open>_id\<close>; with
  the identifier left out of the documents it changes nothing.
\<close>

definition to_dict :: "doc option \<Rightarrow> doc option" where
  "to_dict d = d"

text \<open>
  \<^verbatim>\<open>update_user\<close>: an upsert into \<^verbatim>\<open>user\<close> keyed by the address of the path, setting
  the supplied fields of the body, the body's own address among them; the reply is the
  document that a lookup by the path's address then finds.
\<close>

definition update_user :: "database \<Rightarrow> string \<Rightarrow> User_body \<Rightarrow> (error + doc option) \<times> database" where
  "update_user db email body =
     (case collection db ''user'' of
        Inl e \<Rightarrow> (Inl e, db)
      | Inr col \<Rightarrow>
         (let col' = update_one col [(''email'', BStr email)]
                       (set_fields (user_dump_exclude_unset body))
          in (Inr (to_dict (find_one col' [(''email'', BStr email)])),
              put_collection db ''user'' col')))"

text \<open>The store of a system that holds no record yet.\<close>

definition empty_store :: store where
  "empty_store name = []"

section \<open>Sequences of operations\<close>

text \<open>
  The operations that write to the collections \<^verbatim>\<open>otp\<close>, \<^verbatim>\<open>session\<close>,
  \<^verbatim>\<open>user\<close> and \<^verbatim>\<open>progress\<close>, and the leaderboard, which reads the last of them:
  the four operations of the authentication and progress core and the account update,
  each with the readings of the clock and of the random source that the call makes, and
  the database after a sequence of them.
\<close>

datatype operation =
    RequestOtp int nat string
  | VerifyOtp int int string string string
  | UpsertProgress int Progress
  | Leaderboard int
  | UpdateUser string User_body

fun perform :: "operation \<Rightarrow> database \<Rightarrow> database" where
  "perform (RequestOtp now r email) db = snd (request_otp db now r email)"
| "perform (VerifyOtp now now' token email code) db = snd (verify_otp db now now' token email code)"
| "perform (UpsertProgress now body) db = snd (upsert_progress db now body)"
| "perform (Leaderboard limit) db = snd (leaderboard db limit)"
| "perform (UpdateUser email body) db = snd (update_user db email body)"

fun perform_all :: "operation list \<Rightarrow> database \<Rightarrow> database" where
  "perform_all [] db = db"
| "perform_all (x # xs) db = perform_all xs (perform x db)"

text \<open>The operations of the authentication and progress core: all but the account update.\<close>

fun core_operation :: "operation \<Rightarrow> bool" where
  "core_operation (UpdateUser email body) = False"
| "core_operation x = True"

section \<open>Stores used in the worked examples\<close>

text \<open>One code for \<^verbatim>\<open>a@x.com\<close>, issued at time 0 and valid for ten minutes.\<close>

definition store_one_code :: store where
  "store_one_code = empty_store(''otp'' := [OTP ''a@x.com'' ''123456'' 600000000])"

text \<open>A code record that carries no \<^verbatim>\<open>expires_at\<close> field.\<close>

definition store_no_expiry :: store where
  "store_no_expiry = empty_store(''otp'' := [[(''email'', BStr ''a@x.com''), (''code'', BStr ''123456'')]])"

text \<open>
  Two issues for the same address, five minutes apart, in which the random source draws
  the same number twice, and two issues with different draws.
\<close>

definition db_two_equal_codes :: database where
  "db_two_equal_codes =
     snd (request_otp (snd (request_otp (Some empty_store) 0 123456 ''a@x.com''))
            300000000 123456 ''a@x.com'')"

definition db_two_codes :: database where
  "db_two_codes =
     snd (request_otp (snd (request_otp (Some empty_store) 0 123456 ''a@x.com''))
            300000000 654321 ''a@x.com'')"

text \<open>
  Two issues of the same code for the same address in which the clock was set back in
  between: the record stored first expires at second 900, the one stored after it at
  second 600.
\<close>

definition db_later_code_first :: database where
  "db_later_code_first =
     perform_all [RequestOtp 300000000 123456 ''a@x.com'', RequestOtp 0 123456 ''a@x.com'']
       (Some empty_store)"

text \<open>
  A code record without \<^verbatim>\<open>expires_at\<close>, stored behind a dated record of the same address
  and code.
\<close>

definition store_shadowed_no_expiry :: store where
  "store_shadowed_no_expiry = empty_store(''otp'' :=
     [OTP ''a@x.com'' ''123456'' 600000000,
      [(''email'', BStr ''a@x.com''), (''code'', BStr ''123456'')]])"

text \<open>The store after the first successful verification of the code of \<open>store_one_code\<close>.\<close>

definition store_after_first :: store where
  "store_after_first =
     store_one_code(''session'' := [Session ''a@x.com'' ''t1'' 0],
                    ''user'' := [User ''a@x.com''])"

text \<open>The account records of an identity: the documents of \<^verbatim>\<open>user\<close> that a lookup by its address matches.\<close>

definition accounts_of :: "store \<Rightarrow> string \<Rightarrow> doc list" where
  "accounts_of s e = filter (matches [(''email'', BStr e)]) (s ''user'')"

text \<open>One issue followed by two verifications of the issued code.\<close>

definition three_calls :: "operation list" where
  "three_calls =
     [RequestOtp 0 123456 ''a@x.com'',
      VerifyOtp 1000000 1000000 ''t1'' ''a@x.com'' ''123456'',
      VerifyOtp 2000000 2000000 ''t2'' ''a@x.com'' ''123456'']"

text \<open>
  An account update sent to the path of \<^verbatim>\<open>b@x.com\<close> whose body carries the address
  \<^verbatim>\<open>a@x.com\<close> and nothing else, after the three calls above.
\<close>

definition body_other_email :: User_body where
  "body_other_email =
     \<lparr>body_name = None, body_email = ''a@x.com'', body_role = None, body_avatar_url = None,
      body_locale = None, body_points = None\<rparr>"

definition calls_with_update :: "operation list" where
  "calls_with_update = three_calls @ [UpdateUser ''b@x.com'' body_other_email]"

text \<open>
  The specification's words for the leaderboard: the score of a record, with a missing or
  null score counted as 0, and the total of an identity, the sum over its records.
\<close>

definition score_or_zero :: "doc \<Rightarrow> real" where
  "score_or_zero d = (case map_of d ''score'' of Some (BNum x) \<Rightarrow> x | _ \<Rightarrow> 0)"

definition total_score :: "doc list \<Rightarrow> bson \<Rightarrow> real" where
  "total_score col k =
     sum_list (map score_or_zero (filter (\<lambda>d. field_or_null d ''user_email'' = k) col))"

text \<open>The progress records of the specification's scenario: a with 10, b with 30, a with 5.\<close>

definition store_abc :: store where
  "store_abc = empty_store(''progress'' :=
     [[(''user_email'', BStr ''a''), (''score'', BNum 10)],
      [(''user_email'', BStr ''b''), (''score'', BNum 30)],
      [(''user_email'', BStr ''a''), (''score'', BNum 5)]])"

text \<open>The accumulator that a list of groups holds for a key, 0 when the key has no group.\<close>

definition acc_val :: "(bson \<times> real) list \<Rightarrow> bson \<Rightarrow> real" where
  "acc_val gs k = (case map_of gs k of None \<Rightarrow> 0 | Some t \<Rightarrow> t)"








section \<open>Issuing: the code, its expiry and the stored record\<close>

lemma str_nat_digits: "list_all is_digit (str_nat n)"
proof (induction n rule: str_nat.induct)
  case (1 n)
  have d: "is_digit (''0123456789'' ! k)" if "k < 10" for k
    unfolding is_digit_def using that by (intro nth_mem) simp
  show ?case
  proof (cases "n < 10")
    case True
    then show ?thesis by (subst str_nat.simps) (simp add: d)
  next
    case False
    with 1 show ?thesis by (subst str_nat.simps) (simp add: d)
  qed
qed

lemma str_nat_length: "n < 10 ^ k \<Longrightarrow> 0 < k \<Longrightarrow> length (str_nat n) \<le> k"
proof (induction n arbitrary: k rule: str_nat.induct)
  case (1 n)
  show ?case
  proof (cases "n < 10")
    case True
    with 1(3) show ?thesis by (subst str_nat.simps) simp
  next
    case False
    obtain j where k: "k = Suc j" using 1(3) by (cases k) auto
    have j0: "0 < j" using False 1(2) k by (cases j) auto
    have "n div 10 < 10 ^ j" using 1(2) k by (simp add: less_mult_imp_div_less mult.commute)
    from 1(1)[OF False this j0] False k show ?thesis by (subst str_nat.simps) simp
  qed
qed

lemma format_06d_length: "r < 1000000 \<Longrightarrow> length (format_06d r) = 6"
  using str_nat_length[of r 6] by (simp add: format_06d_def)

lemma format_06d_digits: "list_all is_digit (format_06d r)"
proof -
  have "is_digit CHR ''0''" by (simp add: is_digit_def)
  with str_nat_digits[of r] show ?thesis
    by (auto simp: format_06d_def list_all_iff)
qed

lemma format_06d_42: "format_06d 42 = ''000042''"
proof -
  have "str_nat 42 = ''42''" by (simp add: str_nat.simps)
  moreover have "replicate 4 CHR ''0'' = ''0000''" by (simp add: numeral_eq_Suc)
  ultimately show ?thesis by (simp add: format_06d_def)
qed

lemma format_06d_123456: "format_06d 123456 = ''123456''"
  by (simp add: format_06d_def str_nat.simps)

lemma format_06d_654321: "format_06d 654321 = ''654321''"
  by (simp add: format_06d_def str_nat.simps)

text \<open>
  Claim C6. For every identity and every draw below one million, \<^verbatim>\<open>request_otp\<close> makes a
  code of exactly six decimal digits, stores one new record
  \<open>{email, code, expires_at}\<close> whose expiry is the clock reading plus ten minutes
  (600000000 microseconds) after the records the collection already holds, which stay as
  they are, changes no other collection, and returns the code to the caller.
\<close>

theorem request_otp_issues_code:
  assumes "r < 1000000"
  shows "length (format_06d r) = 6 \<and> list_all is_digit (format_06d r) \<and>
         request_otp (Some s) now r email =
           (Inr \<lparr>sent = True, reply_email = email, reply_code = format_06d r\<rparr>,
            Some (s(''otp'' := s ''otp'' @
              [[(''email'', BStr email), (''code'', BStr (format_06d r)),
                (''expires_at'', BDate (now + 600000000))]])))"
  using assms
  by (simp add: format_06d_length format_06d_digits request_otp_def create_document_def
      OTP_def minutes_def Let_def)

theorem request_otp_issues_code_witness:
  "(42::nat) < 1000000 \<and> format_06d 42 = ''000042'' \<and>
   request_otp (Some (\<lambda>name. [])) 0 42 ''a@x.com'' =
     (Inr \<lparr>sent = True, reply_email = ''a@x.com'', reply_code = ''000042''\<rparr>,
      Some ((\<lambda>name. [])(''otp'' :=
        [[(''email'', BStr ''a@x.com''), (''code'', BStr ''000042''),
          (''expires_at'', BDate 600000000)]])))"
proof -
  have r: "(42::nat) < 1000000" by simp
  show ?thesis
    using request_otp_issues_code [OF r, of "\<lambda>name. []" 0 "''a@x.com''"] format_06d_42 r
    by simp
qed

section \<open>Verification: the three outcomes\<close>

text \<open>
  With a database configured, \<^verbatim>\<open>verify_otp\<close> is decided by the record the lookup
  returns, the first stored record that matches the address and the code, and by the
  expiry check on that record.
\<close>

lemma verify_otp_invalid:
  "find_one (s ''otp'') [(''email'', BStr email), (''code'', BStr code)] = None \<Longrightarrow>
   verify_otp (Some s) now now' token email code = (Inl InvalidCode, Some s)"
  by (simp add: verify_otp_def collection_def)

lemma verify_otp_raises:
  "find_one (s ''otp'') [(''email'', BStr email), (''code'', BStr code)] = Some rec \<Longrightarrow>
   expired rec now = Inl e \<Longrightarrow>
   verify_otp (Some s) now now' token email code = (Inl e, Some s)"
  by (simp add: verify_otp_def collection_def)

lemma verify_otp_code_expired:
  "find_one (s ''otp'') [(''email'', BStr email), (''code'', BStr code)] = Some rec \<Longrightarrow>
   expired rec now = Inr True \<Longrightarrow>
   verify_otp (Some s) now now' token email code = (Inl CodeExpired, Some s)"
  by (simp add: verify_otp_def collection_def)

lemma verify_otp_success:
  "find_one (s ''otp'') [(''email'', BStr email), (''code'', BStr code)] = Some rec \<Longrightarrow>
   expired rec now = Inr False \<Longrightarrow>
   verify_otp (Some s) now now' token email code =
     (Inr token,
      Some (s(''session'' := s ''session'' @ [Session email token now'],
              ''user'' := (case find_one (s ''user'') [(''email'', BStr email)] of
                             None \<Rightarrow> s ''user'' @ [User email]
                           | Some u \<Rightarrow> s ''user''))))"
  by (auto simp add: verify_otp_def collection_def create_document_def fun_upd_twist
      split: option.splits)

lemma find_one_None_iff:
  "find_one col [(''email'', BStr email), (''code'', BStr code)] = None \<longleftrightarrow>
   \<not> (\<exists>rec \<in> set col. map_of rec ''email'' = Some (BStr email) \<and>
                         map_of rec ''code'' = Some (BStr code))"
  by (auto simp add: find_one_def find_None_iff matches_def clause_holds_def)

lemma expired_cases:
  "expired rec now = Inl TypeError \<or> expired rec now = Inr True \<or> expired rec now = Inr False"
  by (cases "field_or_null rec ''expires_at''") (auto simp: expired_def)

lemma expired_date: "map_of rec ''expires_at'' = Some (BDate t) \<Longrightarrow> expired rec now = Inr (t < now)"
  by (simp add: expired_def field_or_null_def)

lemma expired_falsy: "\<not> truthy (field_or_null rec ''expires_at'') \<Longrightarrow> expired rec now = Inr False"
  by (simp add: expired_def)

lemma find_one_append:
  "find_one (xs @ ys) flt = (case find_one xs flt of None \<Rightarrow> find_one ys flt | Some x \<Rightarrow> Some x)"
  by (induction xs) (auto simp: find_one_def)

lemma find_one_OTP:
  "find_one [OTP email code t] [(''email'', BStr email'), (''code'', BStr code')] =
     (if email = email' \<and> code = code' then Some (OTP email code t) else None)"
  by (auto simp: find_one_def matches_def clause_holds_def OTP_def)

lemma expired_OTP: "expired (OTP email code t) now = Inr (t < now)"
  by (simp add: expired_date OTP_def)

lemma request_otp_Some:
  "request_otp (Some s) now r email =
     (Inr \<lparr>sent = True, reply_email = email, reply_code = format_06d r\<rparr>,
      Some (s(''otp'' := s ''otp'' @ [OTP email (format_06d r) (now + minutes 10)])))"
  by (simp add: request_otp_def create_document_def Let_def)

text \<open>
  Claim C3. With a database configured, verification fails with \<^verbatim>\<open>Invalid code\<close>
  exactly when no record of the collection \<^verbatim>\<open>otp\<close> stores both the presented address
  and the presented code, compared as strings without any normalisation; and in that case
  the store is left as it was, so no session record is created.
\<close>

theorem verify_otp_invalid_code_iff:
  "(fst (verify_otp (Some s) now now' token email code) = Inl InvalidCode \<longleftrightarrow>
      \<not> (\<exists>rec \<in> set (s ''otp'').
            map_of rec ''email'' = Some (BStr email) \<and> map_of rec ''code'' = Some (BStr code)))
   \<and> (fst (verify_otp (Some s) now now' token email code) = Inl InvalidCode \<longrightarrow>
      snd (verify_otp (Some s) now now' token email code) = Some s)"
proof (cases "find_one (s ''otp'') [(''email'', BStr email), (''code'', BStr code)]")
  case None
  from verify_otp_invalid[of s email code, OF None] None show ?thesis
    by (simp add: find_one_None_iff)
next
  case (Some rec)
  then have ex: "\<exists>rec \<in> set (s ''otp'').
      map_of rec ''email'' = Some (BStr email) \<and> map_of rec ''code'' = Some (BStr code)"
    using find_one_None_iff[of "s ''otp''" email code] by simp
  from expired_cases[of rec now] have "fst (verify_otp (Some s) now now' token email code) \<noteq> Inl InvalidCode"
  proof (elim disjE)
    assume "expired rec now = Inl TypeError"
    from verify_otp_raises[of s email code, OF Some this] show ?thesis by simp
  next
    assume "expired rec now = Inr True"
    from verify_otp_code_expired[of s email code, OF Some this] show ?thesis by simp
  next
    assume "expired rec now = Inr False"
    from verify_otp_success[of s email code, OF Some this] show ?thesis by simp
  qed
  with ex show ?thesis by simp
qed

theorem verify_otp_invalid_code_iff_witness:
  "fst (verify_otp (Some store_one_code) 0 0 ''t'' ''a@x.com'' ''123456 '') = Inl InvalidCode
   \<and> \<not> (\<exists>rec \<in> set (store_one_code ''otp'').
            map_of rec ''email'' = Some (BStr ''a@x.com'') \<and> map_of rec ''code'' = Some (BStr ''123456 ''))
   \<and> snd (verify_otp (Some store_one_code) 0 0 ''t'' ''a@x.com'' ''123456 '') = Some store_one_code"
proof -
  have "\<not> (\<exists>rec \<in> set (store_one_code ''otp'').
            map_of rec ''email'' = Some (BStr ''a@x.com'') \<and> map_of rec ''code'' = Some (BStr ''123456 ''))"
    by (simp add: store_one_code_def OTP_def)
  with verify_otp_invalid_code_iff [of store_one_code 0 0 "''t''" "''a@x.com''" "''123456 ''"]
  show ?thesis by simp
qed

text \<open>
  Claim C5. Whenever verification fails, with \<^verbatim>\<open>Invalid code\<close>, with
  \<^verbatim>\<open>Code expired\<close> or with any other error, the database it leaves is the one it
  started from: no session and no account is created by the failed call.
\<close>

theorem verify_otp_failure_leaves_store:
  "fst (verify_otp db now now' token email code) = Inl e \<Longrightarrow>
   snd (verify_otp db now now' token email code) = db"
  by (auto simp add: verify_otp_def collection_def create_document_def
      split: option.splits sum.splits bool.splits)

theorem verify_otp_failure_leaves_store_witness:
  "fst (verify_otp (Some store_one_code) 700000000 700000000 ''t'' ''a@x.com'' ''123456'') = Inl CodeExpired
   \<and> snd (verify_otp (Some store_one_code) 700000000 700000000 ''t'' ''a@x.com'' ''123456'') = Some store_one_code"
proof -
  have f: "fst (verify_otp (Some store_one_code) 700000000 700000000 ''t'' ''a@x.com'' ''123456'') = Inl CodeExpired"
    by (simp add: verify_otp_def collection_def store_one_code_def find_one_def matches_def
        clause_holds_def OTP_def expired_def field_or_null_def)
  from verify_otp_failure_leaves_store [OF f] f show ?thesis by simp
qed


text \<open>
  Claim C2 as stated fails when a second record with the same address and code is stored
  in front of the expired one. The code 123456 is issued at second 300 and, after the
  clock was set back, again at second 0, so the store holds a matching record that expired
  at second 600 behind one that is valid until second 900. At second 700 a matching
  record with \<^verbatim>\<open>expires_at\<close> before the current time exists, yet verification succeeds:
  the lookup returns the first record that matches.
\<close>

theorem later_code_first_counterexample:
  "db_later_code_first =
     Some (empty_store(''otp'' :=
       [OTP ''a@x.com'' ''123456'' 900000000, OTP ''a@x.com'' ''123456'' 600000000]))
   \<and> expired (OTP ''a@x.com'' ''123456'' 600000000) 700000000 = Inr True
   \<and> fst (verify_otp db_later_code_first 700000000 700000000 ''t'' ''a@x.com'' ''123456'')
       = Inr ''t''"
proof -
  have d: "db_later_code_first =
     Some (empty_store(''otp'' :=
       [OTP ''a@x.com'' ''123456'' 900000000, OTP ''a@x.com'' ''123456'' 600000000]))"
    by (simp add: db_later_code_first_def request_otp_Some format_06d_123456 minutes_def
        empty_store_def)
  have e: "expired (OTP ''a@x.com'' ''123456'' 600000000) 700000000 = Inr True"
    by (simp add: expired_OTP)
  have v: "fst (verify_otp db_later_code_first 700000000 700000000 ''t'' ''a@x.com'' ''123456'')
       = Inr ''t''"
    unfolding d
    by (simp add: verify_otp_def collection_def create_document_def find_one_def matches_def
        clause_holds_def OTP_def expired_def field_or_null_def empty_store_def)
  from d e v show ?thesis by simp
qed

text \<open>
  Claim C2, amended. When the record that the lookup returns for the address and the
  code, the first stored record that matches both, has an \<^verbatim>\<open>expires_at\<close> date strictly
  before the clock reading, verification fails with \<^verbatim>\<open>Code expired\<close> and changes
  nothing. In particular, for a code issued at \<open>t0\<close> into the empty store, verification
  9 minutes 59 seconds later succeeds, returns the token and leaves an account for the
  address, and verification of the same code 10 minutes 1 second after issuance fails with
  \<^verbatim>\<open>Code expired\<close>.
\<close>

theorem verify_otp_expired_code:
  "(find_one (s ''otp'') [(''email'', BStr email), (''code'', BStr code)] = Some rec \<and>
    map_of rec ''expires_at'' = Some (BDate t) \<and> t < now \<longrightarrow>
      verify_otp (Some s) now now' token email code = (Inl CodeExpired, Some s))
   \<and> (let db1 = snd (request_otp (Some empty_store) t0 r email);
           v1 = verify_otp db1 (t0 + seconds 599) n1 tok1 email (format_06d r);
           v2 = verify_otp (snd v1) (t0 + seconds 601) n2 tok2 email (format_06d r)
       in fst v1 = Inr tok1 \<and>
          (\<exists>s1. snd v1 = Some s1 \<and>
                find_one (s1 ''user'') [(''email'', BStr email)] = Some (User email)) \<and>
          fst v2 = Inl CodeExpired)"
proof (intro conjI impI)
  assume a: "find_one (s ''otp'') [(''email'', BStr email), (''code'', BStr code)] = Some rec \<and>
    map_of rec ''expires_at'' = Some (BDate t) \<and> t < now"
  then have "expired rec now = Inr True" by (simp add: expired_date)
  with a show "verify_otp (Some s) now now' token email code = (Inl CodeExpired, Some s)"
    using verify_otp_code_expired[of s email code rec now] by simp
next
  let ?c = "format_06d r"
  let ?s0 = "empty_store(''otp'' := [OTP email ?c (t0 + minutes 10)])"
  have db1: "snd (request_otp (Some empty_store) t0 r email) = Some ?s0"
    by (simp add: request_otp_Some empty_store_def)
  have f0: "find_one (?s0 ''otp'') [(''email'', BStr email), (''code'', BStr ?c)]
              = Some (OTP email ?c (t0 + minutes 10))"
    by (simp add: find_one_OTP)
  have e1: "expired (OTP email ?c (t0 + minutes 10)) (t0 + seconds 599) = Inr False"
    by (simp add: expired_OTP minutes_def seconds_def)
  have e2: "expired (OTP email ?c (t0 + minutes 10)) (t0 + seconds 601) = Inr True"
    by (simp add: expired_OTP minutes_def seconds_def)
  let ?s1 = "?s0(''session'' := ?s0 ''session'' @ [Session email tok1 n1],
                 ''user'' := (case find_one (?s0 ''user'') [(''email'', BStr email)] of
                             None \<Rightarrow> ?s0 ''user'' @ [User email]
                           | Some u \<Rightarrow> ?s0 ''user''))"
  have v1: "verify_otp (Some ?s0) (t0 + seconds 599) n1 tok1 email ?c = (Inr tok1, Some ?s1)"
    using verify_otp_success[of ?s0 email ?c _ "t0 + seconds 599" n1 tok1, OF f0 e1] .
  have u: "find_one (?s1 ''user'') [(''email'', BStr email)] = Some (User email)"
    by (simp add: empty_store_def find_one_def matches_def clause_holds_def User_def)
  have f1: "find_one (?s1 ''otp'') [(''email'', BStr email), (''code'', BStr ?c)]
              = Some (OTP email ?c (t0 + minutes 10))"
    by (simp add: find_one_OTP)
  have v2: "verify_otp (Some ?s1) (t0 + seconds 601) n2 tok2 email ?c = (Inl CodeExpired, Some ?s1)"
    using verify_otp_code_expired[of ?s1 email ?c _ "t0 + seconds 601" n2 tok2, OF f1 e2] .
  show "let db1 = snd (request_otp (Some empty_store) t0 r email);
           v1 = verify_otp db1 (t0 + seconds 599) n1 tok1 email (format_06d r);
           v2 = verify_otp (snd v1) (t0 + seconds 601) n2 tok2 email (format_06d r)
       in fst v1 = Inr tok1 \<and>
          (\<exists>s1. snd v1 = Some s1 \<and>
                find_one (s1 ''user'') [(''email'', BStr email)] = Some (User email)) \<and>
          fst v2 = Inl CodeExpired"
    unfolding Let_def db1 v1 using u v2 by simp
qed

theorem verify_otp_expired_code_witness:
  "find_one (store_one_code ''otp'') [(''email'', BStr ''a@x.com''), (''code'', BStr ''123456'')]
     = Some (OTP ''a@x.com'' ''123456'' 600000000) \<and>
   map_of (OTP ''a@x.com'' ''123456'' 600000000) ''expires_at'' = Some (BDate 600000000) \<and>
   (600000000::int) < 601000000 \<and>
   verify_otp (Some store_one_code) 601000000 601000000 ''t'' ''a@x.com'' ''123456''
     = (Inl CodeExpired, Some store_one_code)"
proof -
  have f: "find_one (store_one_code ''otp'') [(''email'', BStr ''a@x.com''), (''code'', BStr ''123456'')]
     = Some (OTP ''a@x.com'' ''123456'' 600000000)"
    by (simp add: store_one_code_def find_one_OTP)
  have m: "map_of (OTP ''a@x.com'' ''123456'' 600000000) ''expires_at'' = Some (BDate 600000000)"
    by (simp add: OTP_def)
  from verify_otp_expired_code [of store_one_code "''a@x.com''" "''123456''"
      "OTP ''a@x.com'' ''123456'' 600000000" 600000000 601000000 601000000 "''t''"] f m
  show ?thesis by simp
qed

text \<open>
  Claim C10 as stated fails when the record without an expiry is not the one the lookup
  returns. The store holds a record for the address and the code 123456 that expired at
  second 600 and, behind it, a record with the same address and code and no
  \<^verbatim>\<open>expires_at\<close> field. At second 700 verification with that address and code fails
  with \<^verbatim>\<open>Code expired\<close>.
\<close>

theorem shadowed_no_expiry_counterexample:
  "map_of [(''email'', BStr ''a@x.com''), (''code'', BStr ''123456'')] ''expires_at'' = None
   \<and> matches [(''email'', BStr ''a@x.com''), (''code'', BStr ''123456'')]
         [(''email'', BStr ''a@x.com''), (''code'', BStr ''123456'')]
   \<and> store_shadowed_no_expiry ''otp'' =
         [OTP ''a@x.com'' ''123456'' 600000000,
          [(''email'', BStr ''a@x.com''), (''code'', BStr ''123456'')]]
   \<and> fst (verify_otp (Some store_shadowed_no_expiry) 700000000 700000000 ''t''
              ''a@x.com'' ''123456'') = Inl CodeExpired"
  by (simp add: store_shadowed_no_expiry_def verify_otp_def collection_def find_one_def
      matches_def clause_holds_def OTP_def expired_def field_or_null_def)

text \<open>
  Claim C10, amended. When the record that the lookup returns, the first stored record
  that matches the address and the code, has no \<^verbatim>\<open>expires_at\<close> field, or has a null or
  otherwise falsy value there, the expiry condition is false at every clock reading,
  without any comparison of dates, and verification succeeds: such a code never fails
  with \<^verbatim>\<open>Code expired\<close>.
\<close>

theorem verify_otp_without_expiry:
  assumes "find_one (s ''otp'') [(''email'', BStr email), (''code'', BStr code)] = Some rec"
    and "map_of rec ''expires_at'' = None \<or>
         (\<exists>v. map_of rec ''expires_at'' = Some v \<and> \<not> truthy v)"
  shows "expired rec now = Inr False \<and>
         fst (verify_otp (Some s) now now' token email code) = Inr token"
proof -
  from assms(2) have "\<not> truthy (field_or_null rec ''expires_at'')"
    by (auto simp: field_or_null_def)
  then have e: "expired rec now = Inr False" by (rule expired_falsy)
  from verify_otp_success[of s email code rec now, OF assms(1) e] e show ?thesis by simp
qed

theorem verify_otp_without_expiry_witness:
  "find_one (store_no_expiry ''otp'') [(''email'', BStr ''a@x.com''), (''code'', BStr ''123456'')]
     = Some [(''email'', BStr ''a@x.com''), (''code'', BStr ''123456'')] \<and>
   map_of [(''email'', BStr ''a@x.com''), (''code'', BStr ''123456'')] ''expires_at'' = None \<and>
   fst (verify_otp (Some store_no_expiry) 999999999999 999999999999 ''t'' ''a@x.com'' ''123456'')
     = Inr ''t''"
proof -
  have f: "find_one (store_no_expiry ''otp'') [(''email'', BStr ''a@x.com''), (''code'', BStr ''123456'')]
     = Some [(''email'', BStr ''a@x.com''), (''code'', BStr ''123456'')]"
    by (simp add: store_no_expiry_def find_one_def matches_def clause_holds_def)
  have m: "map_of [(''email'', BStr ''a@x.com''), (''code'', BStr ''123456'')] ''expires_at'' = None"
    by simp
  from verify_otp_without_expiry [of store_no_expiry "''a@x.com''" "''123456''"
      "[(''email'', BStr ''a@x.com''), (''code'', BStr ''123456'')]"
      999999999999 999999999999 "''t''"] f m
  show ?thesis by simp
qed

section \<open>Verification does not consume the code\<close>

text \<open>
  Claim C1 as stated fails when the two issued codes are the same string. The address is
  issued the code 123456 at time 0 and, by a second equal draw, again at minute 5. Both
  records are stored. At minute 12 the second record has not expired (it is valid until
  minute 15), yet verification with 123456 fails with \<^verbatim>\<open>Code expired\<close>: the lookup
  returns the first record that matches, which expired at minute 10.
\<close>

theorem two_equal_codes_counterexample:
  "db_two_equal_codes =
     Some (empty_store(''otp'' :=
       [OTP ''a@x.com'' ''123456'' 600000000, OTP ''a@x.com'' ''123456'' 900000000]))
   \<and> expired (OTP ''a@x.com'' ''123456'' 900000000) 720000000 = Inr False
   \<and> fst (verify_otp db_two_equal_codes 720000000 720000000 ''t'' ''a@x.com'' ''123456'')
       = Inl CodeExpired"
proof -
  have d: "db_two_equal_codes =
     Some (empty_store(''otp'' :=
       [OTP ''a@x.com'' ''123456'' 600000000, OTP ''a@x.com'' ''123456'' 900000000]))"
    by (simp add: db_two_equal_codes_def request_otp_Some format_06d_123456 minutes_def
        empty_store_def)
  have e: "expired (OTP ''a@x.com'' ''123456'' 900000000) 720000000 = Inr False"
    by (simp add: expired_OTP)
  have v: "fst (verify_otp db_two_equal_codes 720000000 720000000 ''t'' ''a@x.com'' ''123456'')
       = Inl CodeExpired"
    unfolding d
    by (simp add: verify_otp_def collection_def find_one_def matches_def clause_holds_def
        OTP_def expired_def field_or_null_def)
  from d e v show ?thesis by simp
qed

lemma verify_otp_success_expiry:
  assumes "verify_otp (Some s) now now' token email code = (Inr out, db')"
    and "find_one (s ''otp'') [(''email'', BStr email), (''code'', BStr code)] = Some rec"
  shows "expired rec now = Inr False"
proof -
  from expired_cases[of rec now] show ?thesis
  proof (elim disjE)
    assume "expired rec now = Inl TypeError"
    from verify_otp_raises[of s email code rec now TypeError now' token, OF assms(2) this] assms(1)
    show ?thesis by simp
  next
    assume "expired rec now = Inr True"
    from verify_otp_code_expired[of s email code rec now now' token, OF assms(2) this] assms(1)
    show ?thesis by simp
  qed
qed

lemma expired_False_later:
  assumes "expired rec now = Inr False"
    and "\<forall>t. map_of rec ''expires_at'' = Some (BDate t) \<longrightarrow> now2 \<le> t"
  shows "expired rec now2 = Inr False"
proof (cases "truthy (field_or_null rec ''expires_at'')")
  case False
  then show ?thesis by (rule expired_falsy)
next
  case True
  with assms(1) obtain t where t: "field_or_null rec ''expires_at'' = BDate t"
    by (cases "field_or_null rec ''expires_at''") (auto simp: expired_def)
  then have "map_of rec ''expires_at'' = Some (BDate t)"
    by (auto simp: field_or_null_def split: option.splits)
  with assms(2) show ?thesis by (simp add: expired_date)
qed

lemma verify_twice:
  assumes v: "verify_otp (Some s) now1 now1' tok1 email code = (Inr tok1, Some s1)"
    and f: "find_one (s ''otp'') [(''email'', BStr email), (''code'', BStr code)] = Some rec"
    and l: "\<forall>t. map_of rec ''expires_at'' = Some (BDate t) \<longrightarrow> now2 \<le> t"
  shows "s1 ''otp'' = s ''otp'' \<and>
         (\<exists>s2. verify_otp (Some s1) now2 now2' tok2 email code = (Inr tok2, Some s2) \<and>
               s2 ''otp'' = s ''otp'' \<and>
               s2 ''session'' = s1 ''session'' @ [Session email tok2 now2'])"
proof -
  have e1: "expired rec now1 = Inr False" by (rule verify_otp_success_expiry[OF v f])
  from verify_otp_success[of s email code rec now1 now1' tok1, OF f e1] v
  have s1: "s1 = s(''session'' := s ''session'' @ [Session email tok1 now1'],
              ''user'' := (case find_one (s ''user'') [(''email'', BStr email)] of
                             None \<Rightarrow> s ''user'' @ [User email]
                           | Some u \<Rightarrow> s ''user''))"
    by simp
  then have o: "s1 ''otp'' = s ''otp''" by simp
  have f1: "find_one (s1 ''otp'') [(''email'', BStr email), (''code'', BStr code)] = Some rec"
    using f o by simp
  have e2: "expired rec now2 = Inr False" by (rule expired_False_later[OF e1 l])
  from verify_otp_success[of s1 email code rec now2 now2' tok2, OF f1 e2] o
  show ?thesis by simp
qed

lemma find_one_Cons:
  "find_one (d # ds) flt = (if matches flt d then Some d else find_one ds flt)"
  by (simp add: find_one_def)

lemma find_one_Nil: "find_one [] flt = None"
  by (simp add: find_one_def)

lemma matches_OTP:
  "matches [(''email'', BStr email'), (''code'', BStr code')] (OTP email code t) \<longleftrightarrow>
     email = email' \<and> code = code'"
  by (auto simp: matches_def clause_holds_def OTP_def)

lemma two_codes:
  assumes n1: "find_one (s ''otp'') [(''email'', BStr email), (''code'', BStr (format_06d r1))] = None"
    and n2: "find_one (s ''otp'') [(''email'', BStr email), (''code'', BStr (format_06d r2))] = None"
    and d: "format_06d r1 \<noteq> format_06d r2"
  shows "let db2 = snd (request_otp (snd (request_otp (Some s) t1 r1 email)) t2 r2 email) in
          db2 = Some (s(''otp'' := s ''otp'' @
                  [OTP email (format_06d r1) (t1 + minutes 10),
                   OTP email (format_06d r2) (t2 + minutes 10)])) \<and>
          (now \<le> t1 + minutes 10 \<longrightarrow>
             fst (verify_otp db2 now now' tok email (format_06d r1)) = Inr tok) \<and>
          (now \<le> t2 + minutes 10 \<longrightarrow>
             fst (verify_otp db2 now now' tok email (format_06d r2)) = Inr tok) \<and>
          (t1 + minutes 10 < now \<longrightarrow>
             fst (verify_otp db2 now now' tok email (format_06d r1)) = Inl CodeExpired) \<and>
          (t2 + minutes 10 < now \<longrightarrow>
             fst (verify_otp db2 now now' tok email (format_06d r2)) = Inl CodeExpired)"
proof -
  let ?c1 = "format_06d r1" and ?c2 = "format_06d r2"
  let ?R1 = "OTP email ?c1 (t1 + minutes 10)" and ?R2 = "OTP email ?c2 (t2 + minutes 10)"
  let ?s2 = "s(''otp'' := s ''otp'' @ [?R1, ?R2])"
  have db2: "snd (request_otp (snd (request_otp (Some s) t1 r1 email)) t2 r2 email) = Some ?s2"
    by (simp add: request_otp_Some)
  have f1: "find_one (?s2 ''otp'') [(''email'', BStr email), (''code'', BStr ?c1)] = Some ?R1"
    by (simp add: find_one_append n1 find_one_Cons matches_OTP)
  have f2: "find_one (?s2 ''otp'') [(''email'', BStr email), (''code'', BStr ?c2)] = Some ?R2"
    using d by (simp add: find_one_append n2 find_one_Cons find_one_Nil matches_OTP)
  have a: "fst (verify_otp (Some ?s2) now now' tok email ?c1) = Inr tok" if "now \<le> t1 + minutes 10"
  proof -
    from that have "expired ?R1 now = Inr False" by (simp add: expired_OTP)
    from verify_otp_success[of ?s2 email ?c1 ?R1 now now' tok, OF f1 this] show ?thesis by simp
  qed
  have b: "fst (verify_otp (Some ?s2) now now' tok email ?c2) = Inr tok" if "now \<le> t2 + minutes 10"
  proof -
    from that have "expired ?R2 now = Inr False" by (simp add: expired_OTP)
    from verify_otp_success[of ?s2 email ?c2 ?R2 now now' tok, OF f2 this] show ?thesis by simp
  qed
  have c: "fst (verify_otp (Some ?s2) now now' tok email ?c1) = Inl CodeExpired" if "t1 + minutes 10 < now"
  proof -
    from that have "expired ?R1 now = Inr True" by (simp add: expired_OTP)
    from verify_otp_code_expired[of ?s2 email ?c1 ?R1 now now' tok, OF f1 this] show ?thesis by simp
  qed
  have e: "fst (verify_otp (Some ?s2) now now' tok email ?c2) = Inl CodeExpired" if "t2 + minutes 10 < now"
  proof -
    from that have "expired ?R2 now = Inr True" by (simp add: expired_OTP)
    from verify_otp_code_expired[of ?s2 email ?c2 ?R2 now now' tok, OF f2 this] show ?thesis by simp
  qed
  show ?thesis unfolding Let_def db2 using a b c e by blast
qed

text \<open>
  Claim C1, amended. A successful verification leaves the collection \<^verbatim>\<open>otp\<close> as it
  was, so the matched record is neither deleted nor consumed: presenting the same address
  and code again, at any time that is not after the expiry of the record the lookup
  returns, succeeds again, returns the token generated for that call and appends a session
  with it. Moreover, when two codes with different digit strings are issued to the same
  address, neither equal to a code already stored for it, both records are stored one
  after the other and verification with either code succeeds up to and including that
  code's own expiry time and fails with \<^verbatim>\<open>Code expired\<close> after it.
\<close>

theorem verify_otp_reusable_until_expiry:
  "(verify_otp (Some s) now1 now1' tok1 email code = (Inr tok1, Some s1) \<and>
    find_one (s ''otp'') [(''email'', BStr email), (''code'', BStr code)] = Some rec \<and>
    (\<forall>t. map_of rec ''expires_at'' = Some (BDate t) \<longrightarrow> now2 \<le> t)
    \<longrightarrow>
      s1 ''otp'' = s ''otp'' \<and>
      (\<exists>s2. verify_otp (Some s1) now2 now2' tok2 email code = (Inr tok2, Some s2) \<and>
            s2 ''otp'' = s ''otp'' \<and>
            s2 ''session'' = s1 ''session'' @ [Session email tok2 now2']))
   \<and>
   (find_one (s0 ''otp'') [(''email'', BStr email), (''code'', BStr (format_06d r1))] = None \<and>
    find_one (s0 ''otp'') [(''email'', BStr email), (''code'', BStr (format_06d r2))] = None \<and>
    format_06d r1 \<noteq> format_06d r2
    \<longrightarrow>
      (let db2 = snd (request_otp (snd (request_otp (Some s0) t1 r1 email)) t2 r2 email) in
          db2 = Some (s0(''otp'' := s0 ''otp'' @
                  [OTP email (format_06d r1) (t1 + minutes 10),
                   OTP email (format_06d r2) (t2 + minutes 10)])) \<and>
          (now \<le> t1 + minutes 10 \<longrightarrow>
             fst (verify_otp db2 now now' tok email (format_06d r1)) = Inr tok) \<and>
          (now \<le> t2 + minutes 10 \<longrightarrow>
             fst (verify_otp db2 now now' tok email (format_06d r2)) = Inr tok) \<and>
          (t1 + minutes 10 < now \<longrightarrow>
             fst (verify_otp db2 now now' tok email (format_06d r1)) = Inl CodeExpired) \<and>
          (t2 + minutes 10 < now \<longrightarrow>
             fst (verify_otp db2 now now' tok email (format_06d r2)) = Inl CodeExpired)))"
  using verify_twice[of s now1 now1' tok1 email code s1 rec now2 now2' tok2]
    two_codes[of s0 email r1 r2 t1 t2 now now' tok]
  by blast

theorem verify_otp_reusable_until_expiry_witness:
  "verify_otp (Some store_one_code) 0 0 ''t1'' ''a@x.com'' ''123456''
     = (Inr ''t1'', Some store_after_first) \<and>
   find_one (store_one_code ''otp'') [(''email'', BStr ''a@x.com''), (''code'', BStr ''123456'')]
     = Some (OTP ''a@x.com'' ''123456'' 600000000) \<and>
   map_of (OTP ''a@x.com'' ''123456'' 600000000) ''expires_at'' = Some (BDate 600000000) \<and>
   (599000000::int) \<le> 600000000 \<and>
   (\<exists>s2. verify_otp (Some store_after_first) 599000000 599000000 ''t2'' ''a@x.com'' ''123456''
           = (Inr ''t2'', Some s2)) \<and>
   find_one (empty_store ''otp'') [(''email'', BStr ''a@x.com''), (''code'', BStr (format_06d 123456))] = None \<and>
   find_one (empty_store ''otp'') [(''email'', BStr ''a@x.com''), (''code'', BStr (format_06d 654321))] = None \<and>
   format_06d 123456 \<noteq> format_06d 654321 \<and>
   fst (verify_otp db_two_codes 720000000 720000000 ''t'' ''a@x.com'' ''654321'') = Inr ''t'' \<and>
   fst (verify_otp db_two_codes 720000000 720000000 ''t'' ''a@x.com'' ''123456'') = Inl CodeExpired"
proof -
  have f: "find_one (store_one_code ''otp'') [(''email'', BStr ''a@x.com''), (''code'', BStr ''123456'')]
     = Some (OTP ''a@x.com'' ''123456'' 600000000)"
    by (simp add: store_one_code_def find_one_OTP)
  have e: "expired (OTP ''a@x.com'' ''123456'' 600000000) 0 = Inr False"
    by (simp add: expired_OTP)
  have u: "find_one (store_one_code ''user'') [(''email'', BStr ''a@x.com'')] = None"
    by (simp add: store_one_code_def empty_store_def find_one_Nil)
  have v: "verify_otp (Some store_one_code) 0 0 ''t1'' ''a@x.com'' ''123456''
     = (Inr ''t1'', Some store_after_first)"
    using verify_otp_success[of store_one_code "''a@x.com''" "''123456''" _ 0 0 "''t1''", OF f e] u
    by (simp add: store_after_first_def store_one_code_def empty_store_def)
  have l: "\<forall>t. map_of (OTP ''a@x.com'' ''123456'' 600000000) ''expires_at'' = Some (BDate t)
        \<longrightarrow> 599000000 \<le> t"
    by (simp add: OTP_def)
  have m: "map_of (OTP ''a@x.com'' ''123456'' 600000000) ''expires_at'' = Some (BDate 600000000)"
    by (simp add: OTP_def)
  have n1: "find_one (empty_store ''otp'') [(''email'', BStr ''a@x.com''), (''code'', BStr (format_06d 123456))] = None"
    by (simp add: empty_store_def find_one_Nil)
  have n2: "find_one (empty_store ''otp'') [(''email'', BStr ''a@x.com''), (''code'', BStr (format_06d 654321))] = None"
    by (simp add: empty_store_def find_one_Nil)
  have d: "format_06d 123456 \<noteq> format_06d 654321"
    by (simp add: format_06d_123456 format_06d_654321)
  have t: "(720000000::int) \<le> 300000000 + minutes 10" "(0::int) + minutes 10 < 720000000"
    by (simp_all add: minutes_def)
  from verify_otp_reusable_until_expiry [of store_one_code 0 0 "''t1''" "''a@x.com''" "''123456''"
      store_after_first "OTP ''a@x.com'' ''123456'' 600000000" 599000000 599000000 "''t2''"
      empty_store 123456 654321 0 300000000 720000000 720000000 "''t''"]
    v f l n1 n2 d t m
  show ?thesis
    unfolding db_two_codes_def Let_def format_06d_123456 format_06d_654321
    by blast
qed

section \<open>Accounts\<close>

lemma leaderboard_snd: "snd (leaderboard db limit) = db"
  by (simp add: leaderboard_def split: sum.splits)

lemma upsert_progress_Some:
  "upsert_progress (Some s) now body =
     (Inr True, Some (s(''progress'' :=
        update_one (s ''progress'') (progress_filter body) (progress_update body now))))"
  by (simp add: upsert_progress_def collection_def put_collection_def)

lemma verify_otp_user:
  "\<exists>s'. snd (verify_otp (Some s) now now' token email code) = Some s' \<and>
        s' ''otp'' = s ''otp'' \<and> s' ''progress'' = s ''progress'' \<and>
        (s' ''user'' = s ''user'' \<or>
         find_one (s ''user'') [(''email'', BStr email)] = None \<and>
         s' ''user'' = s ''user'' @ [User email])"
proof (cases "find_one (s ''otp'') [(''email'', BStr email), (''code'', BStr code)]")
  case None
  from verify_otp_invalid[of s email code now now' token, OF None] show ?thesis by simp
next
  case (Some rec)
  from expired_cases[of rec now] show ?thesis
  proof (elim disjE)
    assume "expired rec now = Inl TypeError"
    from verify_otp_raises[of s email code rec now TypeError now' token, OF Some this]
    show ?thesis by simp
  next
    assume "expired rec now = Inr True"
    from verify_otp_code_expired[of s email code rec now now' token, OF Some this]
    show ?thesis by simp
  next
    assume "expired rec now = Inr False"
    from verify_otp_success[of s email code rec now now' token, OF Some this]
    show ?thesis by (cases "find_one (s ''user'') [(''email'', BStr email)]") simp_all
  qed
qed

lemma update_user_Some:
  "snd (update_user (Some s) email body) =
     Some (s(''user'' := update_one (s ''user'') [(''email'', BStr email)]
                          (set_fields (user_dump_exclude_unset body))))"
  by (simp add: update_user_def collection_def put_collection_def Let_def)

lemma perform_user:
  "core_operation x \<Longrightarrow>
   \<exists>s'. perform x (Some s) = Some s' \<and>
        (s' ''user'' = s ''user'' \<or>
         (\<exists>e. find_one (s ''user'') [(''email'', BStr e)] = None \<and>
              s' ''user'' = s ''user'' @ [User e]))"
proof (cases x)
  case (RequestOtp now r email)
  then show ?thesis by (simp add: request_otp_Some)
next
  case (VerifyOtp now now' token email code)
  with verify_otp_user[of s now now' token email code] show ?thesis by auto
next
  case (UpsertProgress now body)
  then show ?thesis by (simp add: upsert_progress_Some)
next
  case (Leaderboard limit)
  then show ?thesis by (simp add: leaderboard_snd)
next
  case (UpdateUser email body)
  assume "core_operation x"
  with UpdateUser show ?thesis by simp
qed

lemma matches_User: "matches [(''email'', BStr e)] (User e') \<longleftrightarrow> e' = e"
  by (auto simp: matches_def clause_holds_def User_def)

lemma find_one_None_filter: "find_one col flt = None \<longleftrightarrow> filter (matches flt) col = []"
  by (auto simp: find_one_def find_None_iff filter_empty_conv)

lemma perform_accounts:
  assumes "\<forall>e. length (accounts_of s e) \<le> 1" and "core_operation x"
  shows "\<exists>s'. perform x (Some s) = Some s' \<and> (\<forall>e. length (accounts_of s' e) \<le> 1)"
proof -
  from perform_user[of x s, OF assms(2)] obtain s' where p: "perform x (Some s) = Some s'"
    and u: "s' ''user'' = s ''user'' \<or>
         (\<exists>e. find_one (s ''user'') [(''email'', BStr e)] = None \<and>
              s' ''user'' = s ''user'' @ [User e])"
    by blast
  have "length (accounts_of s' e) \<le> 1" for e
  proof -
    from u show ?thesis
    proof
      assume "s' ''user'' = s ''user''"
      with assms(1) show ?thesis by (simp add: accounts_of_def)
    next
      assume "\<exists>e. find_one (s ''user'') [(''email'', BStr e)] = None \<and>
              s' ''user'' = s ''user'' @ [User e]"
      then obtain e0 where n: "find_one (s ''user'') [(''email'', BStr e0)] = None"
        and a: "s' ''user'' = s ''user'' @ [User e0]" by blast
      show ?thesis
      proof (cases "e0 = e")
        case True
        with n have "accounts_of s e = []" by (simp add: accounts_of_def find_one_None_filter)
        with a True show ?thesis by (simp add: accounts_of_def matches_User)
      next
        case False
        with a have "accounts_of s' e = accounts_of s e" by (simp add: accounts_of_def matches_User)
        with assms(1) show ?thesis by simp
      qed
    qed
  qed
  with p show ?thesis by blast
qed

lemma perform_all_accounts:
  "\<forall>e. length (accounts_of s e) \<le> 1 \<Longrightarrow> list_all core_operation xs \<Longrightarrow>
   \<exists>s'. perform_all xs (Some s) = Some s' \<and> (\<forall>e. length (accounts_of s' e) \<le> 1)"
proof (induction xs arbitrary: s)
  case Nil
  then show ?case by simp
next
  case (Cons x xs)
  from Cons.prems(2) have c: "core_operation x" and cs: "list_all core_operation xs" by simp_all
  from perform_accounts[OF Cons.prems(1) c] obtain s1 where
    p: "perform x (Some s) = Some s1" and i: "\<forall>e. length (accounts_of s1 e) \<le> 1" by blast
  from Cons.IH[OF i cs] p show ?case by simp
qed

lemma verify_otp_account:
  assumes "verify_otp (Some s) now now' token email code = (Inr out, Some s1)"
  shows "s1 ''user'' = (case find_one (s ''user'') [(''email'', BStr email)] of
                          None \<Rightarrow> s ''user'' @ [User email]
                        | Some u \<Rightarrow> s ''user'')"
proof (cases "find_one (s ''otp'') [(''email'', BStr email), (''code'', BStr code)]")
  case None
  from verify_otp_invalid[of s email code now now' token, OF None] assms show ?thesis by simp
next
  case (Some rec)
  have "expired rec now = Inr False" by (rule verify_otp_success_expiry[OF assms Some])
  from verify_otp_success[of s email code rec now now' token, OF Some this] assms
  show ?thesis by auto
qed

lemma three_calls_result:
  "perform_all three_calls (Some empty_store) =
     Some (empty_store(''otp'' := [OTP ''a@x.com'' ''123456'' 600000000],
        ''session'' := [Session ''a@x.com'' ''t1'' 1000000, Session ''a@x.com'' ''t2'' 2000000],
        ''user'' := [User ''a@x.com'']))"
  by (simp add: three_calls_def request_otp_Some format_06d_123456 minutes_def
      verify_otp_def collection_def create_document_def find_one_def matches_def
      clause_holds_def OTP_def expired_def field_or_null_def empty_store_def User_def
      fun_upd_twist)

text \<open>
  Claim C4 as stated fails for sequences that contain an account update. One issue and
  two verifications for \<^verbatim>\<open>a@x.com\<close> leave one account for that address. An account
  update sent to the path of \<^verbatim>\<open>b@x.com\<close> with a body whose address is \<^verbatim>\<open>a@x.com\<close>
  finds no record for the path's address, inserts one, and sets its address from the
  body: the store then holds two account records for \<^verbatim>\<open>a@x.com\<close>.
\<close>

theorem update_user_counterexample:
  "perform_all calls_with_update (Some empty_store) =
     Some (empty_store(''otp'' := [OTP ''a@x.com'' ''123456'' 600000000],
        ''session'' := [Session ''a@x.com'' ''t1'' 1000000, Session ''a@x.com'' ''t2'' 2000000],
        ''user'' := [User ''a@x.com'', [(''email'', BStr ''a@x.com'')]]))
   \<and> accounts_of (empty_store(''otp'' := [OTP ''a@x.com'' ''123456'' 600000000],
        ''session'' := [Session ''a@x.com'' ''t1'' 1000000, Session ''a@x.com'' ''t2'' 2000000],
        ''user'' := [User ''a@x.com'', [(''email'', BStr ''a@x.com'')]])) ''a@x.com''
       = [User ''a@x.com'', [(''email'', BStr ''a@x.com'')]]"
proof -
  have a: "perform_all (xs @ [x]) db = perform x (perform_all xs db)" for xs x db
    by (induction xs arbitrary: db) simp_all
  have m: "\<not> matches [(''email'', BStr ''b@x.com'')] (User ''a@x.com'')"
    by (simp add: matches_User)
  have u: "update_one [User ''a@x.com''] [(''email'', BStr ''b@x.com'')]
             (set_fields (user_dump_exclude_unset body_other_email))
           = [User ''a@x.com'', [(''email'', BStr ''a@x.com'')]]"
    using m by (simp add: user_dump_exclude_unset_def body_other_email_def)
  have p: "perform_all calls_with_update (Some empty_store) =
     Some (empty_store(''otp'' := [OTP ''a@x.com'' ''123456'' 600000000],
        ''session'' := [Session ''a@x.com'' ''t1'' 1000000, Session ''a@x.com'' ''t2'' 2000000],
        ''user'' := [User ''a@x.com'', [(''email'', BStr ''a@x.com'')]]))"
    unfolding calls_with_update_def a three_calls_result
    by (simp add: update_user_Some u del: update_one.simps)
  have c: "accounts_of (empty_store(''otp'' := [OTP ''a@x.com'' ''123456'' 600000000],
        ''session'' := [Session ''a@x.com'' ''t1'' 1000000, Session ''a@x.com'' ''t2'' 2000000],
        ''user'' := [User ''a@x.com'', [(''email'', BStr ''a@x.com'')]])) ''a@x.com''
       = [User ''a@x.com'', [(''email'', BStr ''a@x.com'')]]"
    by (simp add: accounts_of_def matches_User) (simp add: matches_def clause_holds_def)
  from p c show ?thesis by simp
qed

text \<open>
  Claim C4, amended. Starting from a store with at most one account record per identity,
  every sequence of the operations of the authentication and progress core (issuing,
  verifying, recording progress, reading the leaderboard) leaves a store with at most one
  account record per identity. A successful verification appends the account with the
  default role, locale and points when the lookup by the address finds none, and leaves
  the collection \<^verbatim>\<open>user\<close> as it is, so overwrites nothing, when it finds one; verifying
  twice for the same identity therefore leaves one account.
\<close>

theorem at_most_one_account:
  "((\<forall>e. length (accounts_of s e) \<le> 1) \<and> list_all core_operation xs \<longrightarrow>
      (\<exists>s'. perform_all xs (Some s) = Some s' \<and> (\<forall>e. length (accounts_of s' e) \<le> 1)))
   \<and> (verify_otp (Some s) now now' token email code = (Inr out, Some s1) \<longrightarrow>
        s1 ''user'' = (case find_one (s ''user'') [(''email'', BStr email)] of
                          None \<Rightarrow> s ''user'' @ [User email]
                        | Some u \<Rightarrow> s ''user''))
   \<and> map_of (User email) ''role'' = Some (BStr ''student'')
   \<and> map_of (User email) ''locale'' = Some (BStr ''en'')
   \<and> map_of (User email) ''points'' = Some (BNum 0)"
  using perform_all_accounts[of s xs] verify_otp_account[of s now now' token email code out s1]
  by (simp add: User_def)

theorem at_most_one_account_witness:
  "(\<forall>e. length (accounts_of empty_store e) \<le> 1) \<and>
   list_all core_operation three_calls \<and>
   (\<exists>s'. perform_all three_calls (Some empty_store) = Some s' \<and>
         accounts_of s' ''a@x.com'' = [User ''a@x.com''] \<and>
         (\<forall>e. length (accounts_of s' e) \<le> 1)) \<and>
   verify_otp (Some store_one_code) 0 0 ''t1'' ''a@x.com'' ''123456''
     = (Inr ''t1'', Some store_after_first) \<and>
   find_one (store_one_code ''user'') [(''email'', BStr ''a@x.com'')] = None \<and>
   store_after_first ''user'' = store_one_code ''user'' @ [User ''a@x.com'']"
proof -
  have h: "\<forall>e. length (accounts_of empty_store e) \<le> 1"
    by (simp add: accounts_of_def empty_store_def)
  have a: "accounts_of (empty_store(''otp'' := [OTP ''a@x.com'' ''123456'' 600000000],
        ''session'' := [Session ''a@x.com'' ''t1'' 1000000, Session ''a@x.com'' ''t2'' 2000000],
        ''user'' := [User ''a@x.com''])) ''a@x.com'' = [User ''a@x.com'']"
    by (simp add: accounts_of_def matches_User)
  have f: "find_one (store_one_code ''otp'') [(''email'', BStr ''a@x.com''), (''code'', BStr ''123456'')]
     = Some (OTP ''a@x.com'' ''123456'' 600000000)"
    by (simp add: store_one_code_def find_one_OTP)
  have e: "expired (OTP ''a@x.com'' ''123456'' 600000000) 0 = Inr False"
    by (simp add: expired_OTP)
  have u: "find_one (store_one_code ''user'') [(''email'', BStr ''a@x.com'')] = None"
    by (simp add: store_one_code_def empty_store_def find_one_Nil)
  have v: "verify_otp (Some store_one_code) 0 0 ''t1'' ''a@x.com'' ''123456''
     = (Inr ''t1'', Some store_after_first)"
    using verify_otp_success[of store_one_code "''a@x.com''" "''123456''" _ 0 0 "''t1''", OF f e] u
    by (simp add: store_after_first_def store_one_code_def empty_store_def)
  have c: "list_all core_operation three_calls"
    by (simp add: three_calls_def)
  from at_most_one_account [of empty_store three_calls]
    at_most_one_account [of store_one_code "[]" 0 0 "''t1''" "''a@x.com''" "''123456''" "''t1''"
      store_after_first] h c v u a
  show ?thesis by (simp add: three_calls_result)
qed

section \<open>The leaderboard\<close>

lemma score_expr_eq: "score_expr d = score_or_zero d"
  by (simp add: score_expr_def score_or_zero_def if_null_def sum_operand_def
      split: option.splits bson.splits)

lemma acc_val_group_add:
  "acc_val (group_add k x gs) k' = acc_val gs k' + (if k' = k then x else 0)"
  by (induction gs) (auto simp: acc_val_def)

lemma keys_group_add: "fst ` set (group_add k x gs) = insert k (fst ` set gs)"
  by (induction gs) auto

lemma distinct_group_add:
  "distinct (map fst gs) \<Longrightarrow> distinct (map fst (group_add k x gs))"
proof (induction gs)
  case Nil
  then show ?case by simp
next
  case (Cons g gs)
  then show ?case using keys_group_add[of k x gs] by (auto simp: image_iff)
qed

lemma acc_val_foldl:
  "acc_val (foldl (\<lambda>acc d. group_add (field_or_null d ''user_email'') (score_expr d) acc) gs col) k
     = acc_val gs k + total_score col k"
  by (induction col arbitrary: gs) (auto simp: acc_val_group_add total_score_def score_expr_eq)

lemma distinct_foldl:
  "distinct (map fst gs) \<Longrightarrow>
   distinct (map fst (foldl (\<lambda>acc d. group_add (field_or_null d ''user_email'') (score_expr d) acc) gs col))"
  by (induction col arbitrary: gs) (auto simp: distinct_group_add)

lemma distinct_group_stage: "distinct (map fst (group_stage col))"
  unfolding group_stage_def by (rule distinct_foldl) simp

lemma group_stage_total:
  assumes "(k, t) \<in> set (group_stage col)"
  shows "t = total_score col k"
proof -
  from assms distinct_group_stage[of col] have "map_of (group_stage col) k = Some t" by simp
  then have "acc_val (group_stage col) k = t" by (simp add: acc_val_def)
  moreover have "acc_val (group_stage col) k = acc_val [] k + total_score col k"
    unfolding group_stage_def by (rule acc_val_foldl)
  ultimately show ?thesis by (simp add: acc_val_def)
qed

lemma sort_stage_set: "set (sort_stage gs) = set gs"
  by (simp add: sort_stage_def)

lemma sort_stage_distinct: "distinct (map fst gs) \<Longrightarrow> distinct (map fst (sort_stage gs))"
  by (simp add: distinct_map sort_stage_def)

lemma sort_stage_sorted: "sorted_wrt (\<lambda>a b. snd a \<ge> snd b) (sort_stage gs)"
proof -
  have "sorted (map (\<lambda>g. - snd g) (sort_stage gs))"
    unfolding sort_stage_def by (rule sorted_sort_key)
  then show ?thesis by (simp add: sorted_map)
qed

lemma leaderboard_positive:
  assumes "0 < n"
  shows "\<exists>out. leaderboard (Some s) n = (Inr out, Some s) \<and>
           int (length out) \<le> n \<and>
           (\<forall>a \<in> set out. entry_score a = total_score (s ''progress'') (entry_user_email a)) \<and>
           sorted_wrt (\<lambda>a b. entry_score a \<ge> entry_score b) out \<and>
           distinct (map entry_user_email out)"
proof -
  let ?agg = "take (nat n) (sort_stage (group_stage (s ''progress'')))"
  let ?out = "map (\<lambda>a. \<lparr>entry_user_email = fst a, entry_score = snd a\<rparr>) ?agg"
  have l: "leaderboard (Some s) n = (Inr ?out, Some s)"
    using assms by (simp add: leaderboard_def collection_def limit_stage_def)
  have len: "int (length ?out) \<le> n" using assms by simp
  have tot: "\<forall>a \<in> set ?out. entry_score a = total_score (s ''progress'') (entry_user_email a)"
  proof
    fix a assume "a \<in> set ?out"
    then obtain g where g: "g \<in> set ?agg" and a: "a = \<lparr>entry_user_email = fst g, entry_score = snd g\<rparr>"
      by auto
    from g have "g \<in> set (group_stage (s ''progress''))"
      using set_take_subset[of "nat n" "sort_stage (group_stage (s ''progress''))"]
      by (auto simp: sort_stage_set)
    then have "snd g = total_score (s ''progress'') (fst g)"
      using group_stage_total[of "fst g" "snd g"] by simp
    with a show "entry_score a = total_score (s ''progress'') (entry_user_email a)" by simp
  qed
  have srt: "sorted_wrt (\<lambda>a b. entry_score a \<ge> entry_score b) ?out"
    using sorted_wrt_take[OF sort_stage_sorted[of "group_stage (s ''progress'')"], of "nat n"]
    by (simp add: sorted_wrt_map)
  have "distinct (map fst ?agg)"
    using sort_stage_distinct[OF distinct_group_stage[of "s ''progress''"]]
    by (simp add: take_map[symmetric] del: take_map)
  then have dis: "distinct (map entry_user_email ?out)" by (simp add: comp_def)
  from l len tot srt dis show ?thesis by blast
qed

lemma leaderboard_abc:
  "leaderboard (Some store_abc) 2 =
     (Inr [\<lparr>entry_user_email = BStr ''b'', entry_score = 30\<rparr>,
           \<lparr>entry_user_email = BStr ''a'', entry_score = 15\<rparr>], Some store_abc)"
proof -
  have g: "group_stage (store_abc ''progress'') = [(BStr ''a'', 15), (BStr ''b'', 30)]"
    by (simp add: store_abc_def group_stage_def field_or_null_def score_expr_def if_null_def
        sum_operand_def)
  have s: "sort_stage [(BStr ''a'', 15), (BStr ''b'', 30)] = [(BStr ''b'', 30), (BStr ''a'', 15)]"
    by (simp add: sort_stage_def)
  have t: "take (nat 2) [(BStr ''b'', 30::real), (BStr ''a'', 15)] = [(BStr ''b'', 30), (BStr ''a'', 15)]"
    by simp
  show ?thesis
    by (simp add: leaderboard_def collection_def limit_stage_def g s t)
qed

text \<open>
  Claim C8. For every progress collection and every positive limit \<open>n\<close>, the leaderboard
  returns at most \<open>n\<close> entries, one per identity at most; the score of each entry is
  the sum of the scores of the records of its identity, a missing or null score counted as
  0; and the entries are in descending order of score. For the records
  a: 10, b: 30, a: 5 the top 2 is b: 30, a: 15.
\<close>

theorem leaderboard_top_n:
  "(0 < n \<longrightarrow>
      (\<exists>out. leaderboard (Some s) n = (Inr out, Some s) \<and>
           int (length out) \<le> n \<and>
           (\<forall>a \<in> set out. entry_score a = total_score (s ''progress'') (entry_user_email a)) \<and>
           sorted_wrt (\<lambda>a b. entry_score a \<ge> entry_score b) out \<and>
           distinct (map entry_user_email out)))
   \<and> leaderboard (Some store_abc) 2 =
     (Inr [\<lparr>entry_user_email = BStr ''b'', entry_score = 30\<rparr>,
           \<lparr>entry_user_email = BStr ''a'', entry_score = 15\<rparr>], Some store_abc)"
  using leaderboard_positive[of n s] leaderboard_abc by blast

theorem leaderboard_top_n_witness:
  "(0::int) < 1 \<and>
   leaderboard (Some store_abc) 1 =
     (Inr [\<lparr>entry_user_email = BStr ''b'', entry_score = 30\<rparr>], Some store_abc) \<and>
   total_score (store_abc ''progress'') (BStr ''b'') = 30 \<and>
   (\<exists>out. leaderboard (Some store_abc) 1 = (Inr out, Some store_abc) \<and> int (length out) \<le> 1)"
proof -
  have g: "group_stage (store_abc ''progress'') = [(BStr ''a'', 15), (BStr ''b'', 30)]"
    by (simp add: store_abc_def group_stage_def field_or_null_def score_expr_def if_null_def
        sum_operand_def)
  have l: "leaderboard (Some store_abc) 1 =
     (Inr [\<lparr>entry_user_email = BStr ''b'', entry_score = 30\<rparr>], Some store_abc)"
    by (simp add: leaderboard_def collection_def limit_stage_def g sort_stage_def)
  have t: "total_score (store_abc ''progress'') (BStr ''b'') = 30"
    by (simp add: total_score_def store_abc_def field_or_null_def score_or_zero_def)
  from leaderboard_top_n [of 1 store_abc] l t show ?thesis by auto
qed

text \<open>
  Claim C9 as stated fails: \<^verbatim>\<open>leaderboard\<close> has no check of its argument and raises no
  error of its own. A limit of 0 or below goes into the pipeline as it is, the store
  rejects the \<^verbatim>\<open>$limit\<close> stage, and what the caller gets is the driver's uncaught
  \<^verbatim>\<open>OperationFailure\<close>, not an invalid-argument error of the service.
\<close>

theorem leaderboard_zero_limit_counterexample:
  "fst (leaderboard (Some store_abc) 0) = Inl OperationFailure \<and>
   fst (leaderboard (Some store_abc) (- 3)) = Inl OperationFailure"
  by (simp add: leaderboard_def collection_def limit_stage_def)

text \<open>
  Claim C9, amended. For every limit of 0 or below, with a database configured, the
  leaderboard returns no list of entries, neither all of them nor an empty one: the call
  fails with the store's operation failure for the rejected pipeline, and the store is
  unchanged.
\<close>

theorem leaderboard_nonpositive_limit:
  "n \<le> 0 \<Longrightarrow> leaderboard (Some s) n = (Inl OperationFailure, Some s)"
  by (simp add: leaderboard_def collection_def limit_stage_def)

theorem leaderboard_nonpositive_limit_witness:
  "(- 1::int) \<le> 0 \<and> leaderboard (Some store_abc) (- 1) = (Inl OperationFailure, Some store_abc)"
  using leaderboard_nonpositive_limit [of "- 1" store_abc] by simp

section \<open>Progress records\<close>




























end
